theory Spec2Isabelle
  imports Complex_Main "HOL-Library.Log_Nat"
begin

section \<open>Reaction-time tester: the hardware world\<close>

text \<open>
  The program drives a Raspberry Pi through \<^verbatim>\<open>RPi.GPIO\<close>: three LEDs, a buzzer, an
  ultrasonic distance sensor and a push button. Its functions are embedded as functions
  on an explicit world: the module globals, the wall clock, the environment the program
  reads (echo line, random source, broken pins) and the trace of everything it did.

  Python floats are read as real numbers and the program's comparisons are kept as
  written. The thresholds \<^verbatim>\<open>0.3\<close> and \<^verbatim>\<open>0.6\<close> are read as the decimal
  numbers: the binary64 value of each lies just below it with no binary64 number in
  between, so every float is classified as the corresponding real is.
\<close>

type_synonym pin = nat

definition PIN_BOTAO :: pin where "PIN_BOTAO = 17"

definition PIN_ECHO :: pin where "PIN_ECHO = 24"

definition PIN_TRIG :: pin where "PIN_TRIG = 23"

definition PIN_LED_AMARELO :: pin where "PIN_LED_AMARELO = 27"

definition PIN_LED_VERDE :: pin where "PIN_LED_VERDE = 22"

definition PIN_LED_VERMELHO :: pin where "PIN_LED_VERMELHO = 5"

definition PIN_BUZZER :: pin where "PIN_BUZZER = 6"

lemmas pin_defs = PIN_BOTAO_def PIN_ECHO_def PIN_TRIG_def PIN_LED_AMARELO_def
  PIN_LED_VERDE_def PIN_LED_VERMELHO_def PIN_BUZZER_def

definition LIMITE_EXCELENTE :: real where "LIMITE_EXCELENTE = 3 / 10"

definition LIMITE_MEDIO :: real where "LIMITE_MEDIO = 6 / 10"

definition VELOCIDADE_DO_SOM :: real where "VELOCIDADE_DO_SOM = 34300"

definition DISTANCIA_GATILHO :: real where "DISTANCIA_GATILHO = 10"

text \<open>The lines the program prints; the three tier lines are the classification.\<close>

datatype mensagem =
    GpioConfigurado
  | TempoDeReacao real
  | ReflexoExcelente
  | ReflexoMedio
  | ReflexoLento
  | PressioneBotao
  | TesteIniciado
  | ReajaAgora
  | TempoEsgotado
  | AguardandoClique

text \<open>
  What the program does to the outside, in order. \<open>Tom f d\<close> marks a call
  \<^verbatim>\<open>tocar_tom(f, d)\<close> and \<open>Leitura d\<close> a value returned by \<^verbatim>\<open>medir_distancia()\<close>;
  the others are calls of \<^verbatim>\<open>GPIO\<close>, of the PWM object, of \<^verbatim>\<open>time.sleep\<close> and of
  \<^verbatim>\<open>print\<close> that went through.
\<close>

datatype evento =
    Output pin bool
  | Setup pin
  | PwmStart real
  | ChangeFrequency real
  | ChangeDutyCycle real
  | Sleep real
  | Print mensagem
  | AddEventDetect pin
  | RemoveEventDetect pin
  | Tom real real
  | Leitura real

record world =
  MODO_SIMULACAO :: bool
  buzzer_pwm :: bool
  tempo_inicio_estmulo :: real
  now :: real
  ciclo :: nat
  echo :: "real \<Rightarrow> bool"
  acaso :: "nat \<Rightarrow> nat"
  sorteios :: nat
  faulty :: "pin list"
  trace :: "evento list"

text \<open>
  \<open>buzzer_pwm\<close> says whether the global of that name holds a PWM object (it is
  \<^verbatim>\<open>None\<close> otherwise). \<open>now\<close> is what \<^verbatim>\<open>time.time()\<close> returns; \<^verbatim>\<open>time.sleep(d)\<close>
  advances it by \<open>d\<close>, one poll of the echo line by \<open>(ciclo + 1)\<close> microseconds, and
  nothing else takes time. \<open>echo\<close> is the level of the echo line at each time,
  \<open>acaso\<close> the numbers the random generator will deliver and \<open>sorteios\<close> how many were
  drawn. A write to a pin in \<open>faulty\<close> raises; under the \<^verbatim>\<open>MagicMock\<close> of simulation
  mode no call raises.
\<close>

datatype erro = HardwareError pin

datatype 'a res = Ok 'a world | Raise erro world

definition registra :: "evento \<Rightarrow> world \<Rightarrow> world" where
  "registra e w = w\<lparr>trace := trace w @ [e]\<rparr>"

definition falha :: "world \<Rightarrow> pin \<Rightarrow> bool" where
  "falha w p = (\<not> MODO_SIMULACAO w \<and> p \<in> set (faulty w))"

definition GPIO_output :: "pin \<Rightarrow> bool \<Rightarrow> world \<Rightarrow> unit res" where
  "GPIO_output p v w =
     (if falha w p then Raise (HardwareError p) w else Ok () (registra (Output p v) w))"

definition pwm_ChangeFrequency :: "real \<Rightarrow> world \<Rightarrow> unit res" where
  "pwm_ChangeFrequency f w =
     (if falha w PIN_BUZZER then Raise (HardwareError PIN_BUZZER) w
      else Ok () (registra (ChangeFrequency f) w))"

definition pwm_ChangeDutyCycle :: "real \<Rightarrow> world \<Rightarrow> unit res" where
  "pwm_ChangeDutyCycle d w =
     (if falha w PIN_BUZZER then Raise (HardwareError PIN_BUZZER) w
      else Ok () (registra (ChangeDutyCycle d) w))"

definition dorme :: "real \<Rightarrow> world \<Rightarrow> world" where
  "dorme d w = registra (Sleep d) (w\<lparr>now := now w + d\<rparr>)"

definition time_sleep :: "real \<Rightarrow> world \<Rightarrow> unit res" where
  "time_sleep d w = Ok () (dorme d w)"

definition print :: "mensagem \<Rightarrow> world \<Rightarrow> unit res" where
  "print m w = Ok () (registra (Print m) w)"

definition GPIO_setup :: "pin \<Rightarrow> world \<Rightarrow> unit res" where
  "GPIO_setup p w = Ok () (registra (Setup p) w)"

definition GPIO_add_event_detect :: "pin \<Rightarrow> world \<Rightarrow> unit res" where
  "GPIO_add_event_detect p w = Ok () (registra (AddEventDetect p) w)"

definition GPIO_remove_event_detect :: "pin \<Rightarrow> world \<Rightarrow> unit res" where
  "GPIO_remove_event_detect p w = Ok () (registra (RemoveEventDetect p) w)"

text \<open>A block of statements: the first one that raises ends the block.\<close>

fun bloco :: "(world \<Rightarrow> unit res) list \<Rightarrow> world \<Rightarrow> unit res" where
  "bloco [] w = Ok () w"
| "bloco (c # cs) w = (case c w of Ok u w' \<Rightarrow> bloco cs w' | Raise e w' \<Rightarrow> Raise e w')"

text \<open>\<^verbatim>\<open>try: ... except Exception: pass\<close>\<close>

definition try_pass :: "(world \<Rightarrow> unit res) \<Rightarrow> world \<Rightarrow> unit res" where
  "try_pass c w = (case c w of Ok u w' \<Rightarrow> Ok () w' | Raise e w' \<Rightarrow> Ok () w')"

subsection \<open>limpar\_saidas, tocar\_tom, mostrar\_resultado\<close>

definition limpar_saidas :: "world \<Rightarrow> unit res" where
  "limpar_saidas =
     try_pass (bloco
       [GPIO_output PIN_LED_AMARELO False,
        GPIO_output PIN_LED_VERDE False,
        GPIO_output PIN_LED_VERMELHO False,
        (\<lambda>w. if buzzer_pwm w \<and> \<not> MODO_SIMULACAO w
              then pwm_ChangeDutyCycle 0 w
              else GPIO_output PIN_BUZZER False w)])"

definition tocar_tom :: "real \<Rightarrow> real \<Rightarrow> world \<Rightarrow> unit res" where
  "tocar_tom frequencia duracao w0 =
     (let w = registra (Tom frequencia duracao) w0 in
      if \<not> MODO_SIMULACAO w \<and> buzzer_pwm w then
        if frequencia > 0 then
          bloco [pwm_ChangeFrequency frequencia,
                 pwm_ChangeDutyCycle 50,
                 time_sleep duracao,
                 pwm_ChangeDutyCycle 0] w
        else time_sleep duracao w
      else time_sleep duracao w)"

definition pisca :: "(world \<Rightarrow> unit res) list" where
  "pisca =
     [GPIO_output PIN_LED_AMARELO True, time_sleep (1 / 10),
      GPIO_output PIN_LED_AMARELO False, time_sleep (1 / 10)]"

definition mostrar_resultado :: "real \<Rightarrow> world \<Rightarrow> unit res" where
  "mostrar_resultado tempo_reacao =
     bloco
       [limpar_saidas,
        print (TempoDeReacao tempo_reacao),
        (if tempo_reacao \<le> LIMITE_EXCELENTE then
           bloco [print ReflexoExcelente,
                  GPIO_output PIN_LED_VERDE True,
                  tocar_tom 1500 (2 / 10)]
         else if tempo_reacao \<le> LIMITE_MEDIO then
           bloco (print ReflexoMedio # concat (replicate 3 pisca))
         else
           bloco [print ReflexoLento,
                  GPIO_output PIN_LED_VERMELHO True,
                  tocar_tom 440 1]),
        time_sleep 2,
        limpar_saidas,
        print PressioneBotao]"

subsection \<open>The random generator\<close>

text \<open>
  \<^verbatim>\<open>random.random()\<close> delivers \<open>k / 2^53\<close> for a 53-bit \<open>k\<close>;
  \<^verbatim>\<open>random.choice(seq)\<close> picks \<^verbatim>\<open>seq[i]\<close> for an index below \<^verbatim>\<open>len(seq)\<close>;
  \<^verbatim>\<open>random.uniform(a, b)\<close> is \<^verbatim>\<open>a + (b - a) * random()\<close>, computed in binary64.
  Sums and differences of clock readings are taken exactly; in \<open>random_uniform\<close> the
  rounding decides which values can come out, so there it is modelled to the bit:
  \<open>fl\<close> rounds a real to the nearest number with a 53-bit significand, ties to even
  (exponent range not limited).
\<close>

definition expoente :: "real \<Rightarrow> int" where
  "expoente x =
     (if 1 \<le> x then int (floorlog 2 (nat \<lfloor>x\<rfloor>)) - 1
      else - int (floorlog 2 (nat (\<lceil>1 / x\<rceil> - 1))))"

definition meio_par :: "real \<Rightarrow> int" where
  "meio_par x =
     (if x - of_int \<lfloor>x\<rfloor> < 1 / 2 then \<lfloor>x\<rfloor>
      else if x - of_int \<lfloor>x\<rfloor> > 1 / 2 then \<lfloor>x\<rfloor> + 1
      else if even \<lfloor>x\<rfloor> then \<lfloor>x\<rfloor> else \<lfloor>x\<rfloor> + 1)"

definition ulp :: "real \<Rightarrow> real" where
  "ulp x = 2 powi (expoente x - 52)"

definition fl :: "real \<Rightarrow> real" where
  "fl x =
     (if x = 0 then 0
      else if x < 0 then - (of_int (meio_par (- x / ulp (- x))) * ulp (- x))
      else of_int (meio_par (x / ulp x)) * ulp x)"

definition random :: "world \<Rightarrow> real \<times> world" where
  "random w =
     (real (acaso w (sorteios w) mod 2 ^ 53) / 2 ^ 53, w\<lparr>sorteios := Suc (sorteios w)\<rparr>)"

definition random_choice :: "real list \<Rightarrow> world \<Rightarrow> real \<times> world" where
  "random_choice seq w =
     (seq ! (acaso w (sorteios w) mod length seq), w\<lparr>sorteios := Suc (sorteios w)\<rparr>)"

definition random_uniform :: "real \<Rightarrow> real \<Rightarrow> world \<Rightarrow> real \<times> world" where
  "random_uniform a b w =
     (fl (a + fl ((b - a) * fst (random w))), snd (random w))"

subsection \<open>medir\_distancia\<close>

text \<open>
  \<^verbatim>\<open>round(x, 2)\<close>: to the nearest hundredth, a tie to the even one.
\<close>

definition py_round2 :: "real \<Rightarrow> real" where
  "py_round2 x = of_int (meio_par (x * 100)) / 100"

definition periodo :: "world \<Rightarrow> real" where
  "periodo w = real (Suc (ciclo w)) / 1000000"

text \<open>
  The two busy waits of \<^verbatim>\<open>medir_distancia\<close> have one shape,
  \<^verbatim>\<open>while GPIO.input(PIN_ECHO) == nivel: pulso = time.time(); if pulso - timeout > 0.1: return 999\<close>,
  with \<open>nivel\<close> low in the first and high in the second. The result is \<open>None\<close> for
  the \<^verbatim>\<open>return 999\<close> and the last value of \<open>pulso\<close> when the loop ends by its test.
\<close>

function esperar_echo :: "bool \<Rightarrow> real \<Rightarrow> real \<Rightarrow> world \<Rightarrow> real option \<times> world" where
  "esperar_echo nivel timeout pulso w =
     (if echo w (now w) = nivel then
        if now w + periodo w - timeout > 1 / 10
        then (None, w\<lparr>now := now w + periodo w\<rparr>)
        else esperar_echo nivel timeout (now w + periodo w) (w\<lparr>now := now w + periodo w\<rparr>)
      else (Some pulso, w))"
  by pat_completeness auto
termination
proof (relation "measure (\<lambda>(nivel, timeout, pulso, w).
                   nat \<lceil>(timeout + 1 / 10 - now w) / periodo w\<rceil>)")
  show "wf (measure (\<lambda>(nivel, timeout, pulso, w).
                   nat \<lceil>(timeout + 1 / 10 - now w) / periodo w\<rceil>))"
    by simp
next
  fix nivel :: bool and timeout pulso :: real and w :: world
  assume "\<not> 1 / 10 < now w + periodo w - timeout"
  then have le: "periodo w \<le> timeout + 1 / 10 - now w"
    by simp
  have pos: "0 < periodo w"
    by (simp add: periodo_def)
  have per: "periodo (w\<lparr>now := now w + periodo w\<rparr>) = periodo w"
    by (simp add: periodo_def)
  have eq: "(timeout + 1 / 10 - (now w + periodo w)) / periodo w
            = (timeout + 1 / 10 - now w) / periodo w - 1"
    using pos by (simp add: field_simps)
  have one: "1 \<le> (timeout + 1 / 10 - now w) / periodo w"
    using le pos by (simp add: field_simps)
  then have "1 \<le> \<lceil>(timeout + 1 / 10 - now w) / periodo w\<rceil>"
    by linarith
  then show "((nivel, timeout, now w + periodo w, w\<lparr>now := now w + periodo w\<rparr>),
              (nivel, timeout, pulso, w))
             \<in> measure (\<lambda>(nivel, timeout, pulso, w).
                   nat \<lceil>(timeout + 1 / 10 - now w) / periodo w\<rceil>)"
    by (simp add: per eq)
qed

definition retorna :: "real \<Rightarrow> world \<Rightarrow> real res" where
  "retorna d w = Ok d (registra (Leitura d) w)"

definition medir_distancia :: "world \<Rightarrow> real res" where
  "medir_distancia w0 =
     (if MODO_SIMULACAO w0 then
        retorna (fst (random_choice [50, 40, 5] w0)) (snd (random_choice [50, 40, 5] w0))
      else
        case bloco [GPIO_output PIN_TRIG True,
                    time_sleep (1 / 100000),
                    GPIO_output PIN_TRIG False] w0 of
          Raise e w \<Rightarrow> Raise e w
        | Ok u w \<Rightarrow>
            (case esperar_echo False (now w) (now w) w of
               (None, w1) \<Rightarrow> retorna 999 w1
             | (Some pulse_start, w1) \<Rightarrow>
                 (case esperar_echo True (now w1) (now w1) w1 of
                    (None, w2) \<Rightarrow> retorna 999 w2
                  | (Some pulse_end, w2) \<Rightarrow>
                      retorna (py_round2 ((pulse_end - pulse_start) * VELOCIDADE_DO_SOM / 2)) w2)))"

lemma esperar_echo_frame:
  "esperar_echo nivel timeout pulso w = (r, w') \<Longrightarrow>
     now w \<le> now w' \<and> w' = w\<lparr>now := now w'\<rparr>"
proof (induction nivel timeout pulso w rule: esperar_echo.induct)
  case (1 nivel timeout pulso w)
  have pos: "0 < periodo w"
    by (simp add: periodo_def)
  show ?case
  proof (cases "echo w (now w) = nivel")
    case False
    with "1.prems" show ?thesis by simp
  next
    case True
    show ?thesis
    proof (cases "now w + periodo w - timeout > 1 / 10")
      case True
      with \<open>echo w (now w) = nivel\<close> "1.prems" pos show ?thesis by auto
    next
      case False
      with \<open>echo w (now w) = nivel\<close> "1.prems"
      have "esperar_echo nivel timeout (now w + periodo w) (w\<lparr>now := now w + periodo w\<rparr>)
            = (r, w')"
        by simp
      from "1.IH" [OF \<open>echo w (now w) = nivel\<close> False this] pos
      show ?thesis by auto
    qed
  qed
qed

lemma bloco_append:
  "bloco (cs @ ds) w = (case bloco cs w of Ok u w' \<Rightarrow> bloco ds w' | Raise e w' \<Rightarrow> Raise e w')"
  by (induction cs arbitrary: w) (auto split: res.splits)

lemma medir_distancia_frame:
  assumes "medir_distancia w = Ok d w'"
  shows "now w \<le> now w' \<and> tempo_inicio_estmulo w' = tempo_inicio_estmulo w"
proof (cases "MODO_SIMULACAO w")
  case True
  with assms show ?thesis
    by (auto simp: medir_distancia_def retorna_def registra_def random_choice_def)
next
  case False
  from assms False obtain u w1 where
    b: "bloco [GPIO_output PIN_TRIG True, time_sleep (1 / 100000),
               GPIO_output PIN_TRIG False] w = Ok u w1"
    by (auto simp: medir_distancia_def split: res.splits)
  then have f1: "now w \<le> now w1 \<and> tempo_inicio_estmulo w1 = tempo_inicio_estmulo w"
    by (auto simp: GPIO_output_def time_sleep_def dorme_def registra_def
             split: if_splits res.splits)
  obtain r1 w2 where e1: "esperar_echo False (now w1) (now w1) w1 = (r1, w2)"
    by (cases "esperar_echo False (now w1) (now w1) w1")
  from esperar_echo_frame [OF e1]
  have f2: "now w1 \<le> now w2" and g2: "w2 = w1\<lparr>now := now w2\<rparr>"
    by simp_all
  from g2 have t2: "tempo_inicio_estmulo w2 = tempo_inicio_estmulo w1"
    by (metis (full_types) world.select_convs(3) world.surjective world.update_convs(4))
  obtain r2 w3 where e2: "esperar_echo True (now w2) (now w2) w2 = (r2, w3)"
    by (cases "esperar_echo True (now w2) (now w2) w2")
  from esperar_echo_frame [OF e2]
  have f3: "now w2 \<le> now w3" and g3: "w3 = w2\<lparr>now := now w3\<rparr>"
    by simp_all
  from g3 have t3: "tempo_inicio_estmulo w3 = tempo_inicio_estmulo w2"
    by (metis (full_types) world.select_convs(3) world.surjective world.update_convs(4))
  from assms False b e1 e2 f1 f2 f3 t2 t3 show ?thesis
    by (auto simp: medir_distancia_def retorna_def registra_def split: option.splits)
qed

subsection \<open>iniciar\_teste\<close>

text \<open>
  The \<^verbatim>\<open>while\<close> loop of \<^verbatim>\<open>iniciar_teste\<close>; its result is the flag \<^verbatim>\<open>reagiu\<close>.
\<close>

function aguardar_reacao :: "world \<Rightarrow> bool res" where
  "aguardar_reacao w =
     (if now w - tempo_inicio_estmulo w < 5 then
        case medir_distancia w of
          Raise e w1 \<Rightarrow> Raise e w1
        | Ok d w1 \<Rightarrow>
            if d \<le> DISTANCIA_GATILHO then
              case mostrar_resultado (now w1 - tempo_inicio_estmulo w1) w1 of
                Raise e w2 \<Rightarrow> Raise e w2
              | Ok u w2 \<Rightarrow> Ok True w2
            else aguardar_reacao (dorme (1 / 100) w1)
      else Ok False w)"
  by pat_completeness auto
termination
proof (relation "measure (\<lambda>w. nat \<lceil>(tempo_inicio_estmulo w + 5 - now w) * 100\<rceil>)")
  show "wf (measure (\<lambda>w. nat \<lceil>(tempo_inicio_estmulo w + 5 - now w) * 100\<rceil>))"
    by simp
next
  fix w :: world and d :: real and w1 :: world
  assume lt: "now w - tempo_inicio_estmulo w < 5"
    and m: "medir_distancia w = Ok d w1"
  from medir_distancia_frame [OF m]
  have mono: "now w \<le> now w1" and t: "tempo_inicio_estmulo w1 = tempo_inicio_estmulo w"
    by simp_all
  have "(tempo_inicio_estmulo w + 5 - (now w1 + 1 / 100)) * 100
        \<le> (tempo_inicio_estmulo w + 5 - now w) * 100 - 1"
    using mono by simp
  then have "\<lceil>(tempo_inicio_estmulo w + 5 - (now w1 + 1 / 100)) * 100\<rceil>
             \<le> \<lceil>(tempo_inicio_estmulo w + 5 - now w) * 100\<rceil> - 1"
    by (metis ceiling_diff_one ceiling_mono)
  moreover have "0 < \<lceil>(tempo_inicio_estmulo w + 5 - now w) * 100\<rceil>"
    using lt by (simp add: ceiling_less_iff)
  ultimately show "(dorme (1 / 100) w1, w)
      \<in> measure (\<lambda>w. nat \<lceil>(tempo_inicio_estmulo w + 5 - now w) * 100\<rceil>)"
    by (simp add: dorme_def registra_def t)
qed

definition iniciar_teste :: "pin \<Rightarrow> world \<Rightarrow> unit res" where
  "iniciar_teste canal =
     bloco
       [GPIO_remove_event_detect PIN_BOTAO,
        print TesteIniciado,
        GPIO_output PIN_LED_AMARELO True,
        (\<lambda>w. time_sleep (fst (random_uniform 2 5 w)) (snd (random_uniform 2 5 w))),
        GPIO_output PIN_LED_AMARELO False,
        print ReajaAgora,
        GPIO_output PIN_LED_VERDE True,
        (\<lambda>w. Ok () (w\<lparr>tempo_inicio_estmulo := now w\<rparr>)),
        (\<lambda>w. case aguardar_reacao w of
                Raise e w1 \<Rightarrow> Raise e w1
              | Ok reagiu w1 \<Rightarrow>
                  if \<not> reagiu
                  then bloco [print TempoEsgotado, mostrar_resultado (999 / 100)] w1
                  else Ok () w1),
        GPIO_add_event_detect PIN_BOTAO]"

subsection \<open>Start-up\<close>

text \<open>
  \<^verbatim>\<open>configuracao_gpio\<close> sets the pins up and, on real hardware, creates the PWM
  object of the buzzer (at 1000 Hz) and starts it with duty cycle 0. \<open>partida\<close> is the
  main block up to its idle loop: configuration, then the registration of
  \<open>iniciar_teste\<close> for the rising edges of the button. The idle loop only sleeps; its
  interruption and the clean-up that follows are outside the model.
\<close>

definition configuracao_gpio :: "world \<Rightarrow> unit res" where
  "configuracao_gpio =
     bloco
       [GPIO_setup PIN_BOTAO,
        GPIO_setup PIN_ECHO,
        GPIO_setup PIN_TRIG,
        GPIO_setup PIN_LED_AMARELO,
        GPIO_setup PIN_LED_VERDE,
        GPIO_setup PIN_LED_VERMELHO,
        GPIO_setup PIN_BUZZER,
        GPIO_output PIN_TRIG False,
        (\<lambda>w. if \<not> MODO_SIMULACAO w
              then Ok () (registra (PwmStart 0) (w\<lparr>buzzer_pwm := True\<rparr>))
              else Ok () w),
        print GpioConfigurado]"

definition partida :: "world \<Rightarrow> unit res" where
  "partida =
     bloco [configuracao_gpio, GPIO_add_event_detect PIN_BOTAO, print AguardandoClique]"

section \<open>Observations on the trace\<close>

text \<open>
  The claims are about what the program did, so they are stated on the trace. The
  functions below read a trace: the level last written to each output pin, the drive
  of the buzzer, whether edge detection is registered on the button, and the calls and
  printed lines of one kind.

  \<open>sem_falhas\<close>: no call of this world can raise, because it is simulated or because no
  pin is broken.
\<close>

definition sem_falhas :: "world \<Rightarrow> bool" where
  "sem_falhas w = (MODO_SIMULACAO w \<or> faulty w = [])"

text \<open>
  \<open>nivel es p\<close> is the level of output pin \<open>p\<close> after the events \<open>es\<close>; every
  output is low before the first write.
\<close>

fun aplica :: "evento \<Rightarrow> (pin \<Rightarrow> bool) \<Rightarrow> (pin \<Rightarrow> bool)" where
  "aplica (Output p v) s = s(p := v)"
| "aplica e s = s"

definition nivel :: "evento list \<Rightarrow> pin \<Rightarrow> bool" where
  "nivel es = fold aplica es (\<lambda>p. False)"

text \<open>
  \<open>buzzer es\<close> is the drive of the buzzer line after \<open>es\<close>, in percent: the duty
  cycle last given to the PWM object or the level last written to the pin, whichever
  came last. It is 0 when the buzzer is silent.
\<close>

fun aciona :: "evento \<Rightarrow> real \<Rightarrow> real" where
  "aciona (PwmStart d) x = d"
| "aciona (ChangeDutyCycle d) x = d"
| "aciona (Output p v) x = (if p = PIN_BUZZER then (if v then 100 else 0) else x)"
| "aciona e x = x"

definition buzzer :: "evento list \<Rightarrow> real" where
  "buzzer es = fold aciona es 0"

text \<open>
  \<open>escutando es\<close>: after \<open>es\<close>, edge detection is registered on the button.
\<close>

fun escuta :: "evento \<Rightarrow> bool \<Rightarrow> bool" where
  "escuta (AddEventDetect p) b = (if p = PIN_BOTAO then True else b)"
| "escuta (RemoveEventDetect p) b = (if p = PIN_BOTAO then False else b)"
| "escuta e b = b"

definition escutando :: "evento list \<Rightarrow> bool" where
  "escutando es = fold escuta es False"

text \<open>
  \<open>emitidos w r\<close> are the events a call added to the trace of the world \<open>w\<close> it
  started in, \<open>r\<close> being its result. \<open>acesos\<close> lists the pins switched on,
  \<open>escritas p\<close> the levels written to pin \<open>p\<close>, \<open>tons\<close> the calls of
  \<^verbatim>\<open>tocar_tom\<close>, \<open>veredito\<close> the tier lines printed and \<open>leituras\<close> the
  distances read, each in order.
\<close>

definition emitidos :: "world \<Rightarrow> 'a res \<Rightarrow> evento list" where
  "emitidos w r =
     (case r of Ok v w' \<Rightarrow> drop (length (trace w)) (trace w')
              | Raise e w' \<Rightarrow> drop (length (trace w)) (trace w'))"





text \<open>
  The events of the calls when nothing raises, in closed form: \<open>limpeza\<close> for
  \<^verbatim>\<open>limpar_saidas\<close>, \<open>som\<close> for \<^verbatim>\<open>tocar_tom\<close>, \<open>relato\<close> for
  \<^verbatim>\<open>mostrar_resultado\<close> (which takes \<open>duracao_relato\<close> seconds) and \<open>preparo\<close>
  for the opening of \<^verbatim>\<open>iniciar_teste\<close> up to the stimulus, with the delay
  \<open>espera\<close> drawn there. They are proved equal to what the embedded functions emit
  (\<open>limpar_saidas_ok\<close>, \<open>tocar_tom_ok\<close>, \<open>mostrar_resultado_ok\<close>,
  \<open>iniciar_teste_ok\<close>).
\<close>

definition limpeza :: "world \<Rightarrow> evento list" where
  "limpeza w =
     [Output PIN_LED_AMARELO False, Output PIN_LED_VERDE False, Output PIN_LED_VERMELHO False,
      if buzzer_pwm w \<and> \<not> MODO_SIMULACAO w then ChangeDutyCycle 0 else Output PIN_BUZZER False]"

definition som :: "world \<Rightarrow> real \<Rightarrow> real \<Rightarrow> evento list" where
  "som w f d =
     (if \<not> MODO_SIMULACAO w \<and> buzzer_pwm w \<and> f > 0
      then [Tom f d, ChangeFrequency f, ChangeDutyCycle 50, Sleep d, ChangeDutyCycle 0]
      else [Tom f d, Sleep d])"

definition relato :: "world \<Rightarrow> real \<Rightarrow> evento list" where
  "relato w t =
     limpeza w @ [Print (TempoDeReacao t)] @
     (if t \<le> 3 / 10 then [Print ReflexoExcelente, Output PIN_LED_VERDE True] @ som w 1500 (2 / 10)
      else if t \<le> 6 / 10 then
        Print ReflexoMedio #
        concat (replicate 3 [Output PIN_LED_AMARELO True, Sleep (1 / 10),
                             Output PIN_LED_AMARELO False, Sleep (1 / 10)])
      else [Print ReflexoLento, Output PIN_LED_VERMELHO True] @ som w 440 1) @
     [Sleep 2] @ limpeza w @ [Print PressioneBotao]"

definition duracao_relato :: "real \<Rightarrow> real" where
  "duracao_relato t = (if t \<le> 3 / 10 then 2 / 10 else if t \<le> 6 / 10 then 6 / 10 else 1) + 2"

text \<open>
  \<open>levanta r\<close>: the call ended by an exception.
\<close>

definition levanta :: "'a res \<Rightarrow> bool" where
  "levanta r = (case r of Ok v w \<Rightarrow> False | Raise e w \<Rightarrow> True)"

text \<open>
  Concrete worlds: a Raspberry Pi on the bench after start-up, nothing in front of the
  sensor, one poll of the echo line every 60 ms; the same bench when the random
  generator delivers its largest number; and the simulation, whose random source always
  selects the reading 50.
\<close>

definition bancada :: world where
  "bancada =
     \<lparr>MODO_SIMULACAO = False, buzzer_pwm = True, tempo_inicio_estmulo = 0, now = 0,
      ciclo = 59999, echo = (\<lambda>t. False), acaso = (\<lambda>n. 0), sorteios = 0,
      faulty = [], trace = []\<rparr>"

definition sorte_grande :: world where
  "sorte_grande = bancada\<lparr>acaso := (\<lambda>n. 2 ^ 53 - 1)\<rparr>"

definition simulador :: world where
  "simulador =
     \<lparr>MODO_SIMULACAO = True, buzzer_pwm = False, tempo_inicio_estmulo = 0, now = 0,
      ciclo = 0, echo = (\<lambda>t. False), acaso = (\<lambda>n. 0), sorteios = 0,
      faulty = [], trace = []\<rparr>"

text \<open>
  \<open>sensorial\<close>: the events of the polling loop between two reports: trigger pulses,
  sleeps and readings. \<open>mesmo_modo w w'\<close>: the world \<open>w'\<close> has the mode and the
  environment of \<open>w\<close>.
\<close>

fun sensorial :: "evento \<Rightarrow> bool" where
  "sensorial (Output p v) = (p = PIN_TRIG)"
| "sensorial (Sleep d) = True"
| "sensorial (Leitura d) = True"
| "sensorial e = False"

definition mesmo_modo :: "world \<Rightarrow> world \<Rightarrow> bool" where
  "mesmo_modo w w' =
     (MODO_SIMULACAO w' = MODO_SIMULACAO w \<and> buzzer_pwm w' = buzzer_pwm w \<and>
      faulty w' = faulty w \<and> ciclo w' = ciclo w \<and> echo w' = echo w \<and> acaso w' = acaso w)"

definition leituras :: "evento list \<Rightarrow> real list" where
  "leituras es = [d. Leitura d \<leftarrow> es]"

definition preparo :: "real \<Rightarrow> evento list" where
  "preparo d =
     [RemoveEventDetect PIN_BOTAO, Print TesteIniciado, Output PIN_LED_AMARELO True, Sleep d,
      Output PIN_LED_AMARELO False, Print ReajaAgora, Output PIN_LED_VERDE True]"

definition espera :: "world \<Rightarrow> real" where
  "espera w = fst (random_uniform 2 5 w)"

text \<open>
  The world in which a call ended, by return or by exception.
\<close>

definition mundo_final :: "'a res \<Rightarrow> world" where
  "mundo_final r = (case r of Ok v w \<Rightarrow> w | Raise e w \<Rightarrow> w)"

text \<open>
  Events that leave the registration of the edge detection as it is.
\<close>

fun neutro :: "evento \<Rightarrow> bool" where
  "neutro (AddEventDetect p) = False"
| "neutro (RemoveEventDetect p) = False"
| "neutro e = True"

text \<open>
  Modelled from the spec: the trigger source (section 6, \<open>subscribe_trigger\<close>), which is
  the edge detection of \<^verbatim>\<open>RPi.GPIO\<close> and not part of the program. A rising edge of the
  button calls the callback \<open>iniciar_teste\<close> when edge detection is registered on the
  button pin at that moment; otherwise the edge is lost and the world stays as it is
  (nothing is queued).
\<close>

definition borda_de_subida :: "world \<Rightarrow> unit res" where
  "borda_de_subida w =
     (if escutando (trace w) then iniciar_teste PIN_BOTAO w else Ok () w)"

text \<open>
  \<open>sempre f P s es\<close>: the property \<open>P\<close> holds in the state \<open>s\<close> and after each of the
  events \<open>es\<close>, applied in order by \<open>f\<close>.
\<close>

fun sempre :: "('e \<Rightarrow> 's \<Rightarrow> 's) \<Rightarrow> ('s \<Rightarrow> bool) \<Rightarrow> 's \<Rightarrow> 'e list \<Rightarrow> bool" where
  "sempre f P s [] = P s"
| "sempre f P s (e # es) = (P s \<and> sempre f P (f e s) es)"

text \<open>
  \<open>exclusivos\<close>: at most one of the three LEDs is on; \<open>apagados\<close>: none is;
  \<open>estado\<close>: the levels of the three.
\<close>

definition exclusivos :: "(pin \<Rightarrow> bool) \<Rightarrow> bool" where
  "exclusivos s =
     (length (filter s [PIN_LED_AMARELO, PIN_LED_VERDE, PIN_LED_VERMELHO]) \<le> 1)"

definition apagados :: "(pin \<Rightarrow> bool) \<Rightarrow> bool" where
  "apagados s = (\<not> s PIN_LED_AMARELO \<and> \<not> s PIN_LED_VERDE \<and> \<not> s PIN_LED_VERMELHO)"

definition estado :: "(pin \<Rightarrow> bool) \<Rightarrow> bool \<times> bool \<times> bool" where
  "estado s = (s PIN_LED_AMARELO, s PIN_LED_VERDE, s PIN_LED_VERMELHO)"

section \<open>Runs in which every write goes through\<close>

lemma sem_falhas_upd [simp]:
  "sem_falhas (w\<lparr>trace := es\<rparr>) = sem_falhas w"
  "sem_falhas (w\<lparr>now := x\<rparr>) = sem_falhas w"
  "sem_falhas (w\<lparr>tempo_inicio_estmulo := x\<rparr>) = sem_falhas w"
  "sem_falhas (w\<lparr>sorteios := n\<rparr>) = sem_falhas w"
  by (simp_all add: sem_falhas_def)

lemma limpeza_upd [simp]:
  "limpeza (w\<lparr>trace := es\<rparr>) = limpeza w"
  "limpeza (w\<lparr>now := x\<rparr>) = limpeza w"
  "limpeza (w\<lparr>tempo_inicio_estmulo := x\<rparr>) = limpeza w"
  "limpeza (w\<lparr>sorteios := n\<rparr>) = limpeza w"
  by (simp_all add: limpeza_def)

lemma som_upd [simp]:
  "som (w\<lparr>trace := es\<rparr>) = som w"
  "som (w\<lparr>now := x\<rparr>) = som w"
  "som (w\<lparr>tempo_inicio_estmulo := x\<rparr>) = som w"
  "som (w\<lparr>sorteios := n\<rparr>) = som w"
  by (simp_all add: som_def fun_eq_iff)

lemma GPIO_output_ok:
  "sem_falhas w \<Longrightarrow> GPIO_output p v w = Ok () (w\<lparr>trace := trace w @ [Output p v]\<rparr>)"
  by (auto simp: sem_falhas_def GPIO_output_def falha_def registra_def)

lemma pwm_ok:
  "sem_falhas w \<Longrightarrow>
     pwm_ChangeDutyCycle d w = Ok () (w\<lparr>trace := trace w @ [ChangeDutyCycle d]\<rparr>)"
  "sem_falhas w \<Longrightarrow>
     pwm_ChangeFrequency f w = Ok () (w\<lparr>trace := trace w @ [ChangeFrequency f]\<rparr>)"
  by (auto simp: sem_falhas_def pwm_ChangeDutyCycle_def pwm_ChangeFrequency_def falha_def
      registra_def)

lemma passos_ok:
  "time_sleep d w = Ok () (w\<lparr>now := now w + d, trace := trace w @ [Sleep d]\<rparr>)"
  "print m w = Ok () (w\<lparr>trace := trace w @ [Print m]\<rparr>)"
  by (simp_all add: time_sleep_def dorme_def print_def registra_def)

lemma limpar_saidas_ok:
  "sem_falhas w \<Longrightarrow> limpar_saidas w = Ok () (w\<lparr>trace := trace w @ limpeza w\<rparr>)"
  by (simp add: limpar_saidas_def try_pass_def GPIO_output_ok pwm_ok limpeza_def)

lemma tocar_tom_ok:
  "sem_falhas w \<Longrightarrow>
   tocar_tom f d w = Ok () (w\<lparr>now := now w + d, trace := trace w @ som w f d\<rparr>)"
  by (simp add: tocar_tom_def Let_def registra_def pwm_ok passos_ok som_def)

lemma mostrar_resultado_ok:
  assumes "sem_falhas w"
  shows "mostrar_resultado t w =
         Ok () (w\<lparr>now := now w + duracao_relato t, trace := trace w @ relato w t\<rparr>)"
  using assms
  by (simp add: mostrar_resultado_def limpar_saidas_ok tocar_tom_ok GPIO_output_ok passos_ok
      relato_def duracao_relato_def pisca_def LIMITE_EXCELENTE_def LIMITE_MEDIO_def
      numeral_3_eq_3)

lemma nivel_append: "nivel (xs @ ys) = fold aplica ys (nivel xs)"
  by (simp add: nivel_def)

lemma buzzer_append: "buzzer (xs @ ys) = fold aciona ys (buzzer xs)"
  by (simp add: buzzer_def)

lemma emitidos_Ok [simp]:
  "emitidos w (Ok v (w\<lparr>now := x, trace := trace w @ es\<rparr>)) = es"
  "emitidos w (Ok v (w\<lparr>trace := trace w @ es\<rparr>)) = es"
  by (simp_all add: emitidos_def)

lemma partida_ok:
  assumes "sem_falhas w" and "trace w = []"
  shows "\<exists>w'. partida w = Ok () w' \<and> sem_falhas w' \<and> apagados (nivel (trace w')) \<and>
           buzzer (trace w') = 0 \<and> escutando (trace w') \<and>
           buzzer_pwm w' = (\<not> MODO_SIMULACAO w \<or> buzzer_pwm w)"
  using assms
  by (auto simp: partida_def configuracao_gpio_def GPIO_setup_def GPIO_output_ok passos_ok
      GPIO_add_event_detect_def registra_def sem_falhas_def nivel_def buzzer_def
      escutando_def apagados_def pin_defs)

section \<open>The feedback\<close>



text \<open>
  Claim C9. After the feedback sequence of \<open>mostrar_resultado\<close>, whatever the tier and
  whatever the outputs were before, the three LEDs are off and the buzzer is not driven.
\<close>

theorem mostrar_resultado_apaga:
  assumes "sem_falhas w"
  shows "\<exists>w'. mostrar_resultado t w = Ok () w' \<and>
           \<not> nivel (trace w') PIN_LED_AMARELO \<and>
           \<not> nivel (trace w') PIN_LED_VERDE \<and>
           \<not> nivel (trace w') PIN_LED_VERMELHO \<and>
           buzzer (trace w') = 0"
  by (simp add: mostrar_resultado_ok [OF assms] relato_def limpeza_def som_def
      nivel_append buzzer_append pin_defs numeral_3_eq_3)

theorem mostrar_resultado_apaga_witness:
  "sem_falhas bancada \<and>
   (\<exists>w'. mostrar_resultado (45 / 100) bancada = Ok () w' \<and>
      \<not> nivel (trace w') PIN_LED_AMARELO \<and> \<not> nivel (trace w') PIN_LED_VERDE \<and>
      \<not> nivel (trace w') PIN_LED_VERMELHO \<and> buzzer (trace w') = 0)"
proof -
  have s: "sem_falhas bancada"
    by (simp add: sem_falhas_def bancada_def)
  show ?thesis
    using s mostrar_resultado_apaga [OF s, of "45 / 100"] by simp
qed

text \<open>
  Claim C8, as amended. A write that raises inside \<open>limpar_saidas\<close> is caught there:
  \<open>limpar_saidas\<close> never raises, whichever pins are broken.
\<close>

theorem limpar_saidas_nunca_levanta: "\<not> levanta (limpar_saidas w)"
  by (simp add: limpar_saidas_def try_pass_def levanta_def split: res.splits)

text \<open>
  Claim C8 as stated fails: the writes that \<open>mostrar_resultado\<close> makes itself are not
  guarded. With a broken green LED pin a reaction time of 0.1 s raises out of it.
\<close>

theorem mostrar_resultado_levanta:
  "levanta (mostrar_resultado (1 / 10) (bancada\<lparr>faulty := [PIN_LED_VERDE]\<rparr>))"
  by (simp add: mostrar_resultado_def limpar_saidas_def try_pass_def GPIO_output_def
      falha_def pwm_ChangeDutyCycle_def print_def registra_def levanta_def bancada_def
      LIMITE_EXCELENTE_def pin_defs)

section \<open>Simulated readings\<close>

text \<open>
  Claim C10. In simulation mode \<open>medir_distancia\<close> returns 50, 40 or 5, the one the random
  index selects: never the sentinel 999, and either above the 10 cm trigger distance
  or the detection 5.
\<close>

theorem medir_distancia_simulado:
  assumes "MODO_SIMULACAO w"
  shows "\<exists>d w'. medir_distancia w = Ok d w' \<and>
           d = [50, 40, 5] ! (acaso w (sorteios w) mod 3) \<and>
           (d = 50 \<or> d = 40 \<or> d = 5) \<and> d \<noteq> 999 \<and>
           (DISTANCIA_GATILHO < d \<or> d = 5)"
proof -
  have "acaso w (sorteios w) mod 3 < 3"
    by simp
  then have "acaso w (sorteios w) mod 3 = 0 \<or> acaso w (sorteios w) mod 3 = 1
             \<or> acaso w (sorteios w) mod 3 = 2"
    by linarith
  then show ?thesis
    using assms
    by (auto simp: medir_distancia_def retorna_def random_choice_def DISTANCIA_GATILHO_def)
qed

theorem medir_distancia_simulado_witness:
  "MODO_SIMULACAO (simulador\<lparr>acaso := (\<lambda>n. 2)\<rparr>) \<and>
   (\<exists>w'. medir_distancia (simulador\<lparr>acaso := (\<lambda>n. 2)\<rparr>) = Ok 5 w')"
  using medir_distancia_simulado [of "simulador\<lparr>acaso := (\<lambda>n. 2)\<rparr>"]
  by (auto simp: simulador_def)

section \<open>The trial\<close>

lemma mesmo_modo_refl [simp]: "mesmo_modo w w"
  by (simp add: mesmo_modo_def)

lemma mesmo_modo_trans: "mesmo_modo a b \<Longrightarrow> mesmo_modo b c \<Longrightarrow> mesmo_modo a c"
  by (simp add: mesmo_modo_def)

lemma mesmo_modo_upd [simp]:
  "mesmo_modo w (v\<lparr>trace := es\<rparr>) = mesmo_modo w v"
  "mesmo_modo w (v\<lparr>now := x\<rparr>) = mesmo_modo w v"
  "mesmo_modo w (v\<lparr>tempo_inicio_estmulo := x\<rparr>) = mesmo_modo w v"
  "mesmo_modo w (v\<lparr>sorteios := n\<rparr>) = mesmo_modo w v"
  by (simp_all add: mesmo_modo_def)

lemma mesmo_modo_sem_falhas: "mesmo_modo w w' \<Longrightarrow> sem_falhas w' = sem_falhas w"
  by (simp add: mesmo_modo_def sem_falhas_def)

lemma mesmo_modo_relato: "mesmo_modo w w' \<Longrightarrow> relato w' = relato w"
  by (simp add: mesmo_modo_def relato_def limpeza_def som_def fun_eq_iff)

lemma esperar_echo_now:
  assumes "esperar_echo lv timeout pulso w = (r, w')"
  shows "now w \<le> now w'" and "w' = w\<lparr>now := now w'\<rparr>"
  using esperar_echo_frame [OF assms] by simp_all

lemma leituras_append [simp]: "leituras (xs @ ys) = leituras xs @ leituras ys"
  by (simp add: leituras_def)

lemma leituras_simps [simp]:
  "leituras [] = []"
  "leituras (Leitura d # es) = d # leituras es"
  "leituras (Sleep x # es) = leituras es"
  "leituras (Output p v # es) = leituras es"
  by (simp_all add: leituras_def)

lemma medir_distancia_ok:
  assumes "sem_falhas w"
  shows "\<exists>d w' S. medir_distancia w = Ok d w' \<and> trace w' = trace w @ S @ [Leitura d] \<and>
           list_all sensorial S \<and> leituras S = [] \<and> mesmo_modo w w' \<and>
           tempo_inicio_estmulo w' = tempo_inicio_estmulo w \<and> now w \<le> now w'"
proof (cases "MODO_SIMULACAO w")
  case True
  then show ?thesis
    by (simp add: medir_distancia_def retorna_def registra_def random_choice_def)
next
  case False
  define w1 where "w1 = w\<lparr>now := now w + 1 / 100000,
      trace := trace w @ [Output PIN_TRIG True, Sleep (1 / 100000), Output PIN_TRIG False]\<rparr>"
  have b: "bloco [GPIO_output PIN_TRIG True, time_sleep (1 / 100000),
               GPIO_output PIN_TRIG False] w = Ok () w1"
    using assms by (simp add: GPIO_output_ok passos_ok w1_def)
  obtain r1 w2 where e1: "esperar_echo False (now w1) (now w1) w1 = (r1, w2)"
    by (cases "esperar_echo False (now w1) (now w1) w1")
  obtain r2 w3 where e2: "esperar_echo True (now w2) (now w2) w2 = (r2, w3)"
    by (cases "esperar_echo True (now w2) (now w2) w2")
  note n1 = esperar_echo_now [OF e1] and n2 = esperar_echo_now [OF e2]
  have t2: "trace w2 = trace w1" "mesmo_modo w w2" "tempo_inicio_estmulo w2 = tempo_inicio_estmulo w"
    by (subst n1(2), simp add: w1_def)+
  have t3: "trace w3 = trace w1" "mesmo_modo w w3" "tempo_inicio_estmulo w3 = tempo_inicio_estmulo w"
    by (subst n2(2), simp add: t2)+
  have n: "now w \<le> now w1"
    by (simp add: w1_def)
  have tr: "trace w1 = trace w @ [Output PIN_TRIG True, Sleep (1 / 100000), Output PIN_TRIG False]"
    by (simp add: w1_def)
  show ?thesis
    using False b e1 e2 n n1(1) n2(1) t2 t3 tr
    by (auto simp: medir_distancia_def retorna_def registra_def split: option.splits)
qed

lemma aguardar_reacao_ok:
  assumes "sem_falhas w"
    and "\<forall>v d v'. mesmo_modo w v \<longrightarrow> medir_distancia v = Ok d v' \<longrightarrow> Q d"
  shows "\<exists>r w' S. aguardar_reacao w = Ok r w' \<and> mesmo_modo w w' \<and>
           tempo_inicio_estmulo w' = tempo_inicio_estmulo w \<and> now w \<le> now w' \<and>
           list_all sensorial S \<and> (\<forall>d \<in> set (leituras S). Q d) \<and>
           (if r then \<exists>t. trace w' = trace w @ S @ relato w t \<and>
                       leituras S \<noteq> [] \<and> last (leituras S) \<le> 10
            else trace w' = trace w @ S \<and> 5 \<le> now w' - tempo_inicio_estmulo w' \<and>
                 (\<forall>d \<in> set (leituras S). 10 < d))"
  using assms
proof (induction w rule: aguardar_reacao.induct)
  case (1 w)
  show ?case
  proof (cases "now w - tempo_inicio_estmulo w < 5")
    case False
    then have "aguardar_reacao w = Ok False w"
      by simp
    with False show ?thesis
      by (intro exI [of _ False] exI [of _ w] exI [of _ "[]"]) simp
  next
    case True
    from medir_distancia_ok [OF "1.prems"(1)] obtain d w1 S1 where
      m: "medir_distancia w = Ok d w1" and
      tr1: "trace w1 = trace w @ S1 @ [Leitura d]" and
      s1: "list_all sensorial S1" and l1: "leituras S1 = []" and
      mm1: "mesmo_modo w w1" and
      t1: "tempo_inicio_estmulo w1 = tempo_inicio_estmulo w" and n1: "now w \<le> now w1"
      by blast
    have sf1: "sem_falhas w1"
      using mm1 "1.prems"(1) by (simp add: mesmo_modo_sem_falhas)
    have qd: "Q d"
      using "1.prems"(2) m mesmo_modo_refl by blast
    show ?thesis
    proof (cases "d \<le> DISTANCIA_GATILHO")
      case perto: True
      define t where "t = now w1 - tempo_inicio_estmulo w1"
      define w2 where "w2 = w1\<lparr>now := now w1 + duracao_relato t,
                               trace := trace w1 @ relato w1 t\<rparr>"
      have a: "aguardar_reacao w = Ok True w2"
        using True m perto mostrar_resultado_ok [OF sf1, of t]
        by (simp add: t_def w2_def)
      have dpos: "0 \<le> duracao_relato t"
        by (simp add: duracao_relato_def)
      have "trace w2 = trace w @ (S1 @ [Leitura d]) @ relato w t"
        by (simp add: w2_def tr1 mesmo_modo_relato [OF mm1])
      moreover have "mesmo_modo w w2" "tempo_inicio_estmulo w2 = tempo_inicio_estmulo w"
        "now w \<le> now w2"
        using mm1 t1 n1 dpos by (simp_all add: w2_def)
      moreover have "list_all sensorial (S1 @ [Leitura d])"
        using s1 by simp
      moreover have "\<forall>x \<in> set (leituras (S1 @ [Leitura d])). Q x"
        using qd l1 by simp
      moreover have "leituras (S1 @ [Leitura d]) \<noteq> []"
        "last (leituras (S1 @ [Leitura d])) \<le> 10"
        using perto l1 by (simp_all add: DISTANCIA_GATILHO_def)
      ultimately show ?thesis
        using a
        by (intro exI [of _ True] exI [of _ w2] exI [of _ "S1 @ [Leitura d]"]) auto
    next
      case longe: False
      define w2 where "w2 = dorme (1 / 100) w1"
      have sf2: "sem_falhas w2"
        using sf1 by (simp add: w2_def dorme_def registra_def)
      have mm12: "mesmo_modo w w2"
        using mm1 by (simp add: w2_def dorme_def registra_def)
      have q2: "\<forall>v d v'. mesmo_modo w2 v \<longrightarrow> medir_distancia v = Ok d v' \<longrightarrow> Q d"
        using "1.prems"(2) mm12 mesmo_modo_trans by blast
      from "1.IH" [OF True m longe sf2 [unfolded w2_def] q2 [unfolded w2_def]]
      obtain r w' S where
        a2: "aguardar_reacao w2 = Ok r w'" and mm2: "mesmo_modo w2 w'" and
        t2: "tempo_inicio_estmulo w' = tempo_inicio_estmulo w2" and
        n2: "now w2 \<le> now w'" and s2: "list_all sensorial S" and
        qs: "\<forall>d \<in> set (leituras S). Q d" and
        c2: "if r then \<exists>t. trace w' = trace w2 @ S @ relato w2 t \<and>
                       leituras S \<noteq> [] \<and> last (leituras S) \<le> 10
             else trace w' = trace w2 @ S \<and> 5 \<le> now w' - tempo_inicio_estmulo w' \<and>
                 (\<forall>d \<in> set (leituras S). 10 < d)"
        unfolding w2_def by blast
      have a: "aguardar_reacao w = Ok r w'"
        using True m longe a2 by (simp add: w2_def)
      have tr2: "trace w2 = trace w @ S1 @ [Leitura d, Sleep (1 / 100)]"
        by (simp add: w2_def dorme_def registra_def tr1)
      have f2: "tempo_inicio_estmulo w2 = tempo_inicio_estmulo w" "now w \<le> now w2"
        using t1 n1 by (simp_all add: w2_def dorme_def registra_def)
      have far: "10 < d"
        using longe by (simp add: DISTANCIA_GATILHO_def)
      let ?S = "S1 @ [Leitura d, Sleep (1 / 100)] @ S"
      have "list_all sensorial ?S"
        using s1 s2 by simp
      moreover have "\<forall>x \<in> set (leituras ?S). Q x"
        using qd qs l1 by simp
      moreover have "mesmo_modo w w'"
        using mm12 mm2 by (rule mesmo_modo_trans)
      moreover have "tempo_inicio_estmulo w' = tempo_inicio_estmulo w" "now w \<le> now w'"
        using t2 f2 n2 by simp_all
      moreover have "if r then \<exists>t. trace w' = trace w @ ?S @ relato w t \<and>
                       leituras ?S \<noteq> [] \<and> last (leituras ?S) \<le> 10
             else trace w' = trace w @ ?S \<and> 5 \<le> now w' - tempo_inicio_estmulo w' \<and>
                 (\<forall>d \<in> set (leituras ?S). 10 < d)"
        using c2 far l1 by (auto simp: tr2 mesmo_modo_relato [OF mm12])
      ultimately show ?thesis
        using a by (intro exI [of _ r] exI [of _ w'] exI [of _ ?S]) simp
    qed
  qed
qed

lemma relato_upd:
  "relato (w\<lparr>trace := es\<rparr>) = relato w"
  by (simp add: relato_def fun_eq_iff)

lemma fst_random_uniform_trace [simp]:
  "fst (random_uniform a b (w\<lparr>trace := es\<rparr>)) = fst (random_uniform a b w)"
  by (simp add: random_uniform_def random_def)

lemma snd_random_uniform: "snd (random_uniform a b w) = w\<lparr>sorteios := Suc (sorteios w)\<rparr>"
  by (simp add: random_uniform_def random_def)

lemma iniciar_teste_ok:
  assumes "sem_falhas w"
    and "\<forall>v d v'. mesmo_modo w v \<longrightarrow> medir_distancia v = Ok d v' \<longrightarrow> Q d"
  shows "\<exists>w' S R. iniciar_teste canal w = Ok () w' \<and> mesmo_modo w w' \<and>
           trace w' = trace w @ preparo (espera w) @ S @ R @ [AddEventDetect PIN_BOTAO] \<and>
           list_all sensorial S \<and> (\<forall>d \<in> set (leituras S). Q d) \<and>
           ((\<exists>t. R = relato w t \<and> leituras S \<noteq> [] \<and> last (leituras S) \<le> 10) \<or>
            (R = Print TempoEsgotado # relato w (999 / 100) \<and>
             (\<forall>d \<in> set (leituras S). 10 < d) \<and>
             8 \<le> now w' - tempo_inicio_estmulo w'))"
proof -
  define w7 where "w7 = w\<lparr>sorteios := Suc (sorteios w), now := now w + espera w,
      trace := trace w @ preparo (espera w), tempo_inicio_estmulo := now w + espera w\<rparr>"
  have sf7: "sem_falhas w7" and mm7: "mesmo_modo w w7"
    using assms(1) by (simp_all add: w7_def)
  have q7: "\<forall>v d v'. mesmo_modo w7 v \<longrightarrow> medir_distancia v = Ok d v' \<longrightarrow> Q d"
    using assms(2) mm7 mesmo_modo_trans by blast
  from aguardar_reacao_ok [OF sf7 q7] obtain r w8 S where
    a: "aguardar_reacao w7 = Ok r w8" and mm8: "mesmo_modo w7 w8" and
    t8: "tempo_inicio_estmulo w8 = tempo_inicio_estmulo w7" and
    s: "list_all sensorial S" and qs: "\<forall>d \<in> set (leituras S). Q d" and
    c: "if r then \<exists>t. trace w8 = trace w7 @ S @ relato w7 t \<and>
                       leituras S \<noteq> [] \<and> last (leituras S) \<le> 10
        else trace w8 = trace w7 @ S \<and> 5 \<le> now w8 - tempo_inicio_estmulo w8 \<and>
                 (\<forall>d \<in> set (leituras S). 10 < d)"
    by blast
  have mm: "mesmo_modo w w8"
    using mm7 mm8 by (rule mesmo_modo_trans)
  have sf8: "sem_falhas w8"
    using mm assms(1) by (simp add: mesmo_modo_sem_falhas)
  have rel: "relato w7 = relato w" "relato w8 = relato w"
    using mm7 mm by (simp_all add: mesmo_modo_relato)
  have tr7: "trace w7 = trace w @ preparo (espera w)"
    by (simp add: w7_def)
  have pre: "bloco [GPIO_remove_event_detect PIN_BOTAO,
        print TesteIniciado,
        GPIO_output PIN_LED_AMARELO True,
        (\<lambda>w. time_sleep (fst (random_uniform 2 5 w)) (snd (random_uniform 2 5 w))),
        GPIO_output PIN_LED_AMARELO False,
        print ReajaAgora,
        GPIO_output PIN_LED_VERDE True,
        (\<lambda>w. Ok () (w\<lparr>tempo_inicio_estmulo := now w\<rparr>))] w = Ok () w7"
    using assms(1)
    by (simp add: GPIO_remove_event_detect_def GPIO_output_ok passos_ok registra_def
        snd_random_uniform espera_def preparo_def w7_def)
  have ini: "iniciar_teste canal w =
      (case (if \<not> r then bloco [print TempoEsgotado, mostrar_resultado (999 / 100)] w8
             else Ok () w8) of
         Ok u x \<Rightarrow> Ok () (x\<lparr>trace := trace x @ [AddEventDetect PIN_BOTAO]\<rparr>)
       | Raise e x \<Rightarrow> Raise e x)"
  proof -
    have "iniciar_teste canal w =
       bloco ([GPIO_remove_event_detect PIN_BOTAO,
        print TesteIniciado,
        GPIO_output PIN_LED_AMARELO True,
        (\<lambda>w. time_sleep (fst (random_uniform 2 5 w)) (snd (random_uniform 2 5 w))),
        GPIO_output PIN_LED_AMARELO False,
        print ReajaAgora,
        GPIO_output PIN_LED_VERDE True,
        (\<lambda>w. Ok () (w\<lparr>tempo_inicio_estmulo := now w\<rparr>))] @
        [(\<lambda>w. case aguardar_reacao w of
                Raise e w1 \<Rightarrow> Raise e w1
              | Ok reagiu w1 \<Rightarrow>
                  if \<not> reagiu
                  then bloco [print TempoEsgotado, mostrar_resultado (999 / 100)] w1
                  else Ok () w1),
        GPIO_add_event_detect PIN_BOTAO]) w"
      by (simp only: iniciar_teste_def append.simps)
    also have "\<dots> = bloco [(\<lambda>w. case aguardar_reacao w of
                Raise e w1 \<Rightarrow> Raise e w1
              | Ok reagiu w1 \<Rightarrow>
                  if \<not> reagiu
                  then bloco [print TempoEsgotado, mostrar_resultado (999 / 100)] w1
                  else Ok () w1),
        GPIO_add_event_detect PIN_BOTAO] w7"
      by (simp only: bloco_append pre res.case)
    also have "\<dots> = (case (if \<not> r then bloco [print TempoEsgotado, mostrar_resultado (999 / 100)] w8
             else Ok () w8) of
         Ok u x \<Rightarrow> Ok () (x\<lparr>trace := trace x @ [AddEventDetect PIN_BOTAO]\<rparr>)
       | Raise e x \<Rightarrow> Raise e x)"
      by (cases "if \<not> r then bloco [print TempoEsgotado, mostrar_resultado (999 / 100)] w8
             else Ok () w8")
         (simp_all only: bloco.simps a res.case GPIO_add_event_detect_def registra_def)
    finally show ?thesis .
  qed
  show ?thesis
  proof (cases r)
    case True
    with c obtain t where
      tr8: "trace w8 = trace w7 @ S @ relato w7 t" and
      l: "leituras S \<noteq> []" "last (leituras S) \<le> 10"
      by auto
    define w' where "w' = w8\<lparr>trace := trace w8 @ [AddEventDetect PIN_BOTAO]\<rparr>"
    have "iniciar_teste canal w = Ok () w'"
      using ini True by (simp add: w'_def)
    moreover have "mesmo_modo w w'"
      using mm by (simp add: w'_def)
    moreover have "trace w' = trace w @ preparo (espera w) @ S @ relato w t @
                     [AddEventDetect PIN_BOTAO]"
      by (simp add: w'_def tr8 tr7 rel)
    ultimately show ?thesis
      using s qs l by blast
  next
    case False
    with c have tr8: "trace w8 = trace w7 @ S" and
      dl: "5 \<le> now w8 - tempo_inicio_estmulo w8" and
      l: "\<forall>d \<in> set (leituras S). 10 < d"
      by auto
    define w' where "w' = w8\<lparr>now := now w8 + duracao_relato (999 / 100),
       trace := trace w8 @ (Print TempoEsgotado # relato w (999 / 100)) @
                [AddEventDetect PIN_BOTAO]\<rparr>"
    have "iniciar_teste canal w = Ok () w'"
    proof -
      have "mostrar_resultado (999 / 100) (w8\<lparr>trace := trace w8 @ [Print TempoEsgotado]\<rparr>)
            = Ok () (w8\<lparr>now := now w8 + duracao_relato (999 / 100),
                 trace := trace w8 @ (Print TempoEsgotado # relato w (999 / 100))\<rparr>)"
        using sf8 rel(2)
        by (simp add: mostrar_resultado_ok relato_upd)
      then show ?thesis
        using ini False by (simp add: passos_ok w'_def)
    qed
    moreover have "mesmo_modo w w'"
      using mm by (simp add: w'_def)
    moreover have "trace w' = trace w @ preparo (espera w) @ S @
                     (Print TempoEsgotado # relato w (999 / 100)) @ [AddEventDetect PIN_BOTAO]"
      by (simp add: w'_def tr8 tr7)
    moreover have "8 \<le> now w' - tempo_inicio_estmulo w'"
      using dl by (simp add: w'_def duracao_relato_def)
    ultimately show ?thesis
      using s qs l by blast
  qed
qed

subsection \<open>Timeout\<close>


lemma leituras_fixos [simp]:
  "leituras (preparo d) = []"
  "leituras (relato w t) = []"
  "leituras [AddEventDetect p] = []"
  "leituras (Print m # es) = leituras es"
  by (simp_all add: leituras_def preparo_def relato_def limpeza_def som_def numeral_3_eq_3)







subsection \<open>The trigger guard\<close>

lemma escutando_append: "escutando (xs @ ys) = fold escuta ys (escutando xs)"
  by (simp add: escutando_def)

lemma sensorial_neutro: "list_all sensorial S \<Longrightarrow> list_all neutro S"
proof (induction S)
  case Nil
  show ?case by simp
next
  case (Cons e es)
  then show ?case by (cases e) simp_all
qed

lemma neutro_fold: "list_all neutro M \<Longrightarrow> fold escuta M b = b"
proof (induction M)
  case Nil
  show ?case by simp
next
  case (Cons e es)
  then show ?case by (cases e) simp_all
qed

lemma neutro_relato: "list_all neutro (relato w t)"
  by (simp add: relato_def limpeza_def som_def numeral_3_eq_3)

lemma neutro_take: "list_all neutro M \<Longrightarrow> list_all neutro (take k M)"
  by (auto simp: list_all_iff dest: in_set_takeD)

lemma iniciar_teste_forma:
  assumes "sem_falhas w"
  shows "\<exists>w' M. iniciar_teste canal w = Ok () w' \<and>
           emitidos w (iniciar_teste canal w)
             = RemoveEventDetect PIN_BOTAO # M @ [AddEventDetect PIN_BOTAO] \<and>
           trace w' = trace w @ RemoveEventDetect PIN_BOTAO # M @ [AddEventDetect PIN_BOTAO] \<and>
           list_all neutro M \<and>
           length (filter (\<lambda>e. e = Print TesteIniciado) M) = 1"
proof -
  from iniciar_teste_ok [OF assms, of "\<lambda>d. True" canal] obtain w' S R where
    i: "iniciar_teste canal w = Ok () w'" and
    tr: "trace w' = trace w @ preparo (espera w) @ S @ R @ [AddEventDetect PIN_BOTAO]" and
    s: "list_all sensorial S" and
    c: "(\<exists>t. R = relato w t \<and> leituras S \<noteq> [] \<and> last (leituras S) \<le> 10) \<or>
        (R = Print TempoEsgotado # relato w (999 / 100) \<and>
         (\<forall>d \<in> set (leituras S). 10 < d) \<and> 8 \<le> now w' - tempo_inicio_estmulo w')"
    by blast
  define M where "M = tl (preparo (espera w)) @ S @ R"
  have e: "emitidos w (iniciar_teste canal w)
           = RemoveEventDetect PIN_BOTAO # M @ [AddEventDetect PIN_BOTAO]"
    by (simp add: i emitidos_def tr M_def preparo_def)
  have nR: "list_all neutro R"
    using c neutro_relato by auto
  have tR: "filter (\<lambda>e. e = Print TesteIniciado) R = []"
    using c by (auto simp: relato_def limpeza_def som_def numeral_3_eq_3)
  have tS: "filter (\<lambda>e. e = Print TesteIniciado) S = []"
    using s by (auto simp: filter_empty_conv list_all_iff)
  have "list_all neutro M"
    using sensorial_neutro [OF s] nR by (simp add: M_def preparo_def)
  moreover have "length (filter (\<lambda>e. e = Print TesteIniciado) M) = 1"
    using tR tS by (simp add: M_def preparo_def)
  moreover have "trace w' = trace w @ RemoveEventDetect PIN_BOTAO # M @ [AddEventDetect PIN_BOTAO]"
    by (simp add: tr M_def preparo_def)
  ultimately show ?thesis
    using i e by blast
qed

text \<open>
  Claim C3. An edge that arrives while the system is idle and listening runs one trial,
  after which the system listens again. At every instant inside that trial, after its
  first action \<^verbatim>\<open>remove_event_detect\<close> and before its last action
  \<^verbatim>\<open>add_event_detect\<close>, the system is not listening, and an edge delivered then starts
  nothing and leaves the world unchanged: it is dropped, not queued.
\<close>

theorem gatilho_durante_teste:
  assumes "sem_falhas w" and "escutando (trace w)"
  shows "\<exists>w'. borda_de_subida w = Ok () w' \<and> escutando (trace w') \<and>
           length (filter (\<lambda>e. e = Print TesteIniciado) (emitidos w (borda_de_subida w))) = 1 \<and>
           (\<forall>n v. 0 < n \<and> n < length (emitidos w (borda_de_subida w)) \<and>
                   trace v = trace w @ take n (emitidos w (borda_de_subida w))
                   \<longrightarrow> \<not> escutando (trace v) \<and> borda_de_subida v = Ok () v)"
proof -
  from iniciar_teste_forma [OF assms(1), of PIN_BOTAO] obtain w' M where
    i: "iniciar_teste PIN_BOTAO w = Ok () w'" and
    e: "emitidos w (iniciar_teste PIN_BOTAO w)
          = RemoveEventDetect PIN_BOTAO # M @ [AddEventDetect PIN_BOTAO]" and
    tr: "trace w' = trace w @ RemoveEventDetect PIN_BOTAO # M @ [AddEventDetect PIN_BOTAO]" and
    nm: "list_all neutro M" and
    one: "length (filter (\<lambda>e. e = Print TesteIniciado) M) = 1"
    by blast
  have b: "borda_de_subida w = iniciar_teste PIN_BOTAO w"
    using assms(2) by (simp add: borda_de_subida_def)
  have fim: "escutando (trace w')"
    by (simp add: tr escutando_append neutro_fold [OF nm])
  have meio: "\<not> escutando (trace v) \<and> borda_de_subida v = Ok () v"
    if n: "0 < n" "n < length (emitidos w (borda_de_subida w))"
      and v: "trace v = trace w @ take n (emitidos w (borda_de_subida w))"
    for n v
  proof -
    obtain k where k: "n = Suc k"
      using n(1) by (cases n) simp_all
    have "k \<le> length M"
      using n(2) by (simp add: b e k)
    then have "trace v = trace w @ RemoveEventDetect PIN_BOTAO # take k M"
      by (simp add: v b e k)
    then have "\<not> escutando (trace v)"
      by (simp add: escutando_append neutro_fold [OF neutro_take [OF nm]])
    then show ?thesis
      by (simp add: borda_de_subida_def)
  qed
  have bi: "borda_de_subida w = Ok () w'"
    using b i by simp
  have um: "length (filter (\<lambda>e. e = Print TesteIniciado) (emitidos w (borda_de_subida w))) = 1"
    using one by (simp add: b e)
  have tudo: "\<forall>n v. 0 < n \<and> n < length (emitidos w (borda_de_subida w)) \<and>
                   trace v = trace w @ take n (emitidos w (borda_de_subida w))
                   \<longrightarrow> \<not> escutando (trace v) \<and> borda_de_subida v = Ok () v"
    using meio by blast
  show ?thesis
    using bi fim um tudo by blast
qed

theorem gatilho_durante_teste_witness:
  "sem_falhas (bancada\<lparr>trace := [AddEventDetect PIN_BOTAO]\<rparr>) \<and>
   escutando (trace (bancada\<lparr>trace := [AddEventDetect PIN_BOTAO]\<rparr>)) \<and>
   (\<exists>w'. borda_de_subida (bancada\<lparr>trace := [AddEventDetect PIN_BOTAO]\<rparr>) = Ok () w' \<and>
      escutando (trace w'))"
proof -
  have a: "sem_falhas (bancada\<lparr>trace := [AddEventDetect PIN_BOTAO]\<rparr>)"
    by (simp add: sem_falhas_def bancada_def)
  have b: "escutando (trace (bancada\<lparr>trace := [AddEventDetect PIN_BOTAO]\<rparr>))"
    by (simp add: escutando_def)
  show ?thesis
    using a b gatilho_durante_teste [OF a b] by blast
qed

text \<open>
  Claim C4, as amended. Every run of \<open>iniciar_teste\<close> that returns, by detection or by
  timeout, leaves the edge detection registered; on working hardware it always returns,
  and the only events of the run that touch the registration are the removal at its
  start and the registration at its end.
\<close>

theorem iniciar_teste_reabilita:
  "(iniciar_teste canal w = Ok u w' \<longrightarrow> escutando (trace w')) \<and>
   (sem_falhas w \<longrightarrow>
      (\<exists>w''. iniciar_teste canal w = Ok () w'' \<and>
         filter (\<lambda>e. \<not> neutro e) (emitidos w (iniciar_teste canal w))
           = [RemoveEventDetect PIN_BOTAO, AddEventDetect PIN_BOTAO]))"
proof
  show "iniciar_teste canal w = Ok u w' \<longrightarrow> escutando (trace w')"
  proof
    assume ok: "iniciar_teste canal w = Ok u w'"
    have "iniciar_teste canal w =
       bloco ([GPIO_remove_event_detect PIN_BOTAO,
        print TesteIniciado,
        GPIO_output PIN_LED_AMARELO True,
        (\<lambda>w. time_sleep (fst (random_uniform 2 5 w)) (snd (random_uniform 2 5 w))),
        GPIO_output PIN_LED_AMARELO False,
        print ReajaAgora,
        GPIO_output PIN_LED_VERDE True,
        (\<lambda>w. Ok () (w\<lparr>tempo_inicio_estmulo := now w\<rparr>)),
        (\<lambda>w. case aguardar_reacao w of
                Raise e w1 \<Rightarrow> Raise e w1
              | Ok reagiu w1 \<Rightarrow>
                  if \<not> reagiu
                  then bloco [print TempoEsgotado, mostrar_resultado (999 / 100)] w1
                  else Ok () w1)] @
        [GPIO_add_event_detect PIN_BOTAO]) w"
      by (simp only: iniciar_teste_def append.simps)
    with ok obtain w1 where "w' = registra (AddEventDetect PIN_BOTAO) w1"
      by (simp only: bloco_append bloco.simps GPIO_add_event_detect_def split: res.splits)
         auto
    then show "escutando (trace w')"
      by (simp add: registra_def escutando_append)
  qed
next
  show "sem_falhas w \<longrightarrow>
      (\<exists>w''. iniciar_teste canal w = Ok () w'' \<and>
         filter (\<lambda>e. \<not> neutro e) (emitidos w (iniciar_teste canal w))
           = [RemoveEventDetect PIN_BOTAO, AddEventDetect PIN_BOTAO])"
  proof
    assume sf: "sem_falhas w"
    from iniciar_teste_forma [OF sf, of canal] obtain w'' M where
      i: "iniciar_teste canal w = Ok () w''" and
      e: "emitidos w (iniciar_teste canal w)
          = RemoveEventDetect PIN_BOTAO # M @ [AddEventDetect PIN_BOTAO]" and
      nm: "list_all neutro M"
      by blast
    have "filter (\<lambda>e. \<not> neutro e) M = []"
      using nm by (simp add: filter_empty_conv list_all_iff)
    then have "filter (\<lambda>e. \<not> neutro e) (emitidos w (iniciar_teste canal w))
           = [RemoveEventDetect PIN_BOTAO, AddEventDetect PIN_BOTAO]"
      by (simp add: e)
    with i show "\<exists>w''. iniciar_teste canal w = Ok () w'' \<and>
         filter (\<lambda>e. \<not> neutro e) (emitidos w (iniciar_teste canal w))
           = [RemoveEventDetect PIN_BOTAO, AddEventDetect PIN_BOTAO]"
      by blast
  qed
qed

theorem iniciar_teste_reabilita_witness:
  "sem_falhas bancada \<and>
   (\<exists>w''. iniciar_teste PIN_BOTAO bancada = Ok () w'' \<and> escutando (trace w''))"
proof -
  have sf: "sem_falhas bancada"
    by (simp add: sem_falhas_def bancada_def)
  from iniciar_teste_reabilita [of PIN_BOTAO bancada] sf
  obtain w'' where i: "iniciar_teste PIN_BOTAO bancada = Ok () w''"
    by blast
  with iniciar_teste_reabilita [of PIN_BOTAO bancada "()" w''] have "escutando (trace w'')"
    by blast
  with sf i show ?thesis by blast
qed

text \<open>
  Claim C4 as stated fails on its last part: \<open>iniciar_teste\<close> has no handler around its
  own writes. With a broken yellow LED pin the first write after
  \<^verbatim>\<open>remove_event_detect\<close> raises out of \<open>iniciar_teste\<close>, and the edge detection stays
  removed.
\<close>

theorem iniciar_teste_fica_surdo:
  "escutando (trace (bancada\<lparr>faulty := [PIN_LED_AMARELO], trace := [AddEventDetect PIN_BOTAO]\<rparr>)) \<and>
   levanta (iniciar_teste PIN_BOTAO
     (bancada\<lparr>faulty := [PIN_LED_AMARELO], trace := [AddEventDetect PIN_BOTAO]\<rparr>)) \<and>
   \<not> escutando (trace (mundo_final (iniciar_teste PIN_BOTAO
     (bancada\<lparr>faulty := [PIN_LED_AMARELO], trace := [AddEventDetect PIN_BOTAO]\<rparr>))))"
  by (simp add: iniciar_teste_def GPIO_remove_event_detect_def print_def GPIO_output_def
      falha_def registra_def bancada_def levanta_def mundo_final_def escutando_def pin_defs)

subsection \<open>Failed sensor reads\<close>





subsection \<open>One light at a time\<close>

lemma sempre_append:
  "sempre f P s (xs @ ys) = (sempre f P s xs \<and> sempre f P (fold f xs s) ys)"
  by (induction xs arbitrary: s) (auto elim: sempre.elims)

lemma sempre_inicio: "sempre f P s es \<Longrightarrow> P s"
  by (cases es) simp_all

lemma sempre_iff: "sempre f P s es = (\<forall>n. P (fold f (take n es) s))"
proof (induction es arbitrary: s)
  case Nil
  show ?case by simp
next
  case (Cons e es)
  have "(\<forall>n. P (fold f (take n (e # es)) s))
        = (P s \<and> (\<forall>k. P (fold f (take k es) (f e s))))"
  proof
    assume a: "\<forall>n. P (fold f (take n (e # es)) s)"
    have "P s" using a [rule_format, of 0] by simp
    moreover have "P (fold f (take k es) (f e s))" for k
      using a [rule_format, of "Suc k"] by simp
    ultimately show "P s \<and> (\<forall>k. P (fold f (take k es) (f e s)))" by blast
  next
    assume a: "P s \<and> (\<forall>k. P (fold f (take k es) (f e s)))"
    show "\<forall>n. P (fold f (take n (e # es)) s)"
    proof
      fix n show "P (fold f (take n (e # es)) s)"
        using a by (cases n) simp_all
    qed
  qed
  with Cons show ?case by simp
qed

lemma exclusivos_estado:
  "exclusivos s = (case estado s of (a, b, c) \<Rightarrow> \<not> (a \<and> b) \<and> \<not> (a \<and> c) \<and> \<not> (b \<and> c))"
  by (auto simp: exclusivos_def estado_def)

lemma sensorial_estado: "sensorial e \<Longrightarrow> estado (aplica e s) = estado s"
  by (cases e) (auto simp: estado_def pin_defs)

lemma sensorial_fold: "list_all sensorial S \<Longrightarrow> estado (fold aplica S s) = estado s"
  by (induction S arbitrary: s) (simp_all add: sensorial_estado)

lemma sensorial_sempre:
  "list_all sensorial S \<Longrightarrow> exclusivos s \<Longrightarrow> sempre aplica exclusivos s S"
proof (induction S arbitrary: s)
  case Nil
  then show ?case by simp
next
  case (Cons e es)
  then have "exclusivos (aplica e s)"
    by (simp add: exclusivos_estado sensorial_estado)
  with Cons show ?case by simp
qed

lemma preparo_sempre:
  assumes "apagados s"
  shows "sempre aplica exclusivos s (preparo d)"
    and "estado (fold aplica (preparo d) s) = (False, True, False)"
  using assms
  by (simp_all add: preparo_def apagados_def exclusivos_def estado_def pin_defs)

lemma relato_sempre:
  assumes "estado s = (False, True, False)"
  shows "sempre aplica exclusivos s (relato w t)"
    and "apagados (fold aplica (relato w t) s)"
  using assms
  by (simp_all add: relato_def limpeza_def som_def apagados_def exclusivos_def estado_def
      pin_defs numeral_3_eq_3)

lemma exclusivos_apagados: "apagados s \<Longrightarrow> exclusivos s"
  by (simp add: apagados_def exclusivos_def)

lemma limpeza_apaga: "apagados (fold aplica (limpeza v) s)"
  by (simp add: limpeza_def apagados_def pin_defs)

lemma take_relato: "take 4 (relato v t) = limpeza v"
  by (simp add: relato_def limpeza_def)

text \<open>
  Claim C6. A trial on working hardware that starts with the three LEDs off (as they
  are after start-up and after every earlier trial) has, at every instant, at most one
  of the yellow, green and red LEDs on; in particular yellow and green are never on
  together, and the trial ends with the three off. And \<open>mostrar_resultado\<close> begins
  every report by clearing: after its first four writes the LEDs are off, whatever was
  lit at its entry.
\<close>

theorem luzes_exclusivas:
  assumes "sem_falhas w" and "apagados (nivel (trace w))"
  shows "\<exists>w'. iniciar_teste canal w = Ok () w' \<and> apagados (nivel (trace w')) \<and>
           (\<forall>n. exclusivos (nivel (trace w @ take n (emitidos w (iniciar_teste canal w)))) \<and>
                \<not> (nivel (trace w @ take n (emitidos w (iniciar_teste canal w))) PIN_LED_AMARELO \<and>
                   nivel (trace w @ take n (emitidos w (iniciar_teste canal w))) PIN_LED_VERDE)) \<and>
           (\<forall>v t. sem_falhas v \<longrightarrow>
                apagados (nivel (trace v @ take 4 (emitidos v (mostrar_resultado t v)))))"
proof -
  from iniciar_teste_ok [OF assms(1), of "\<lambda>d. True" canal] obtain w' S R where
    i: "iniciar_teste canal w = Ok () w'" and
    tr: "trace w' = trace w @ preparo (espera w) @ S @ R @ [AddEventDetect PIN_BOTAO]" and
    s: "list_all sensorial S" and
    c: "(\<exists>t. R = relato w t \<and> leituras S \<noteq> [] \<and> last (leituras S) \<le> 10) \<or>
        (R = Print TempoEsgotado # relato w (999 / 100) \<and>
         (\<forall>d \<in> set (leituras S). 10 < d) \<and> 8 \<le> now w' - tempo_inicio_estmulo w')"
    by blast
  define s0 where "s0 = nivel (trace w)"
  define s1 where "s1 = fold aplica (preparo (espera w)) s0"
  define s2 where "s2 = fold aplica S s1"
  define s3 where "s3 = fold aplica R s2"
  have e: "emitidos w (iniciar_teste canal w)
           = preparo (espera w) @ S @ R @ [AddEventDetect PIN_BOTAO]"
    by (simp add: i emitidos_def tr)
  have p0: "apagados s0"
    using assms(2) by (simp add: s0_def)
  have a1: "sempre aplica exclusivos s0 (preparo (espera w))"
    and e1: "estado s1 = (False, True, False)"
    using preparo_sempre [OF p0] by (simp_all add: s1_def)
  have x1: "exclusivos s1"
    using e1 by (simp add: exclusivos_estado)
  have a2: "sempre aplica exclusivos s1 S"
    using s x1 by (rule sensorial_sempre)
  have e2: "estado s2 = (False, True, False)"
    using sensorial_fold [OF s, of s1] e1 by (simp add: s2_def)
  have x2: "exclusivos s2"
    using e2 by (simp add: exclusivos_estado)
  have a3: "sempre aplica exclusivos s2 R \<and> apagados s3"
    using c relato_sempre [OF e2] x2 by (auto simp: s3_def)
  have a4: "sempre aplica exclusivos s3 [AddEventDetect PIN_BOTAO]"
    using a3 by (simp add: exclusivos_apagados)
  have tudo: "sempre aplica exclusivos s0 (emitidos w (iniciar_teste canal w))"
    using a1 a2 a3 a4 by (simp add: e sempre_append s1_def s2_def s3_def)
  have fim: "apagados (nivel (trace w'))"
    using a3 by (simp add: tr nivel_append s0_def s1_def s2_def s3_def)
  have inst: "exclusivos (nivel (trace w @ take n (emitidos w (iniciar_teste canal w))))"
    for n
    using tudo by (simp add: sempre_iff nivel_append s0_def)
  have par: "\<not> (nivel (trace w @ take n (emitidos w (iniciar_teste canal w))) PIN_LED_AMARELO \<and>
                   nivel (trace w @ take n (emitidos w (iniciar_teste canal w))) PIN_LED_VERDE)"
    for n
    using inst [of n] by (auto simp: exclusivos_def)
  have entrada: "apagados (nivel (trace v @ take 4 (emitidos v (mostrar_resultado t v))))"
    if "sem_falhas v" for v t
    by (simp add: mostrar_resultado_ok [OF that] take_relato nivel_append limpeza_apaga)
  show ?thesis
    using i fim inst par entrada by blast
qed

theorem luzes_exclusivas_witness:
  "sem_falhas bancada \<and> apagados (nivel (trace bancada)) \<and>
   (\<exists>w'. iniciar_teste PIN_BOTAO bancada = Ok () w' \<and> apagados (nivel (trace w')))"
proof -
  have a: "sem_falhas bancada"
    by (simp add: sem_falhas_def bancada_def)
  have b: "apagados (nivel (trace bancada))"
    by (simp add: bancada_def nivel_def apagados_def)
  show ?thesis
    using a b luzes_exclusivas [OF a b, of PIN_BOTAO] by blast
qed

subsection \<open>The arming delay\<close>

lemma floorlog_vals: "floorlog 2 2 = 2" "floorlog 2 4 = 3"
  by (rule antisym; simp add: floorlog_le_iff floorlog_geI)+

lemma meio_par_le: "x \<le> of_int N \<Longrightarrow> meio_par x \<le> N"
proof -
  assume a: "x \<le> of_int N"
  then have f: "\<lfloor>x\<rfloor> \<le> N"
    by (simp add: floor_le_iff)
  show ?thesis
  proof (cases "x = of_int \<lfloor>x\<rfloor>")
    case True
    then have "meio_par x = \<lfloor>x\<rfloor>"
      by (simp add: meio_par_def)
    with f show ?thesis by simp
  next
    case False
    then have "of_int \<lfloor>x\<rfloor> < x"
      using of_int_floor_le [of x] by linarith
    with a have "\<lfloor>x\<rfloor> < N"
      by linarith
    then have "\<lfloor>x\<rfloor> + 1 \<le> N" by simp
    with f show ?thesis
      by (simp add: meio_par_def)
  qed
qed

lemma meio_par_ge: "of_int N \<le> x \<Longrightarrow> N \<le> meio_par x"
proof -
  assume "of_int N \<le> x"
  then have "N \<le> \<lfloor>x\<rfloor>"
    by (simp add: le_floor_iff)
  then show ?thesis
    by (simp add: meio_par_def)
qed

lemma expoente_le: "0 < x \<Longrightarrow> x \<le> 5 \<Longrightarrow> expoente x \<le> 52"
proof -
  assume "0 < x" and x5: "x \<le> 5"
  show ?thesis
  proof (cases "1 \<le> x")
    case True
    have "\<lfloor>x\<rfloor> \<le> \<lfloor>5 :: real\<rfloor>"
      using x5 by (rule floor_mono)
    then have "\<lfloor>x\<rfloor> \<le> 5" by simp
    then have "nat \<lfloor>x\<rfloor> < 8" by linarith
    then have "nat \<lfloor>x\<rfloor> < 2 ^ 3" by simp
    then have "floorlog 2 (nat \<lfloor>x\<rfloor>) \<le> 3"
      by (simp add: floorlog_le_iff)
    with True show ?thesis
      by (simp add: expoente_def)
  next
    case False
    then show ?thesis
      by (simp add: expoente_def)
  qed
qed

lemma fl_entre:
  assumes "0 < x" and "expoente x \<le> 52" and "of_int a \<le> x" and "x \<le> of_int b"
  shows "of_int a \<le> fl x \<and> fl x \<le> of_int b"
proof -
  define n where "n = nat (52 - expoente x)"
  have e: "expoente x - 52 = - int n"
    using assms(2) by (simp add: n_def)
  have u: "ulp x = 1 / 2 ^ n"
    by (simp add: ulp_def e power_int_minus inverse_eq_divide)
  have f: "fl x = of_int (meio_par (x * 2 ^ n)) / 2 ^ n"
    using assms(1) by (simp add: fl_def u)
  have "of_int (a * 2 ^ n) \<le> x * 2 ^ n"
    using assms(3) by simp
  then have lo: "a * 2 ^ n \<le> meio_par (x * 2 ^ n)"
    by (rule meio_par_ge)
  have "x * 2 ^ n \<le> of_int (b * 2 ^ n)"
    using assms(4) by simp
  then have hi: "meio_par (x * 2 ^ n) \<le> b * 2 ^ n"
    by (rule meio_par_le)
  have "of_int a \<le> (of_int (meio_par (x * 2 ^ n)) :: real) / 2 ^ n"
  proof -
    have "(of_int (a * 2 ^ n) :: real) \<le> of_int (meio_par (x * 2 ^ n))"
      using lo by (simp only: of_int_le_iff)
    then show ?thesis
      by (simp add: pos_le_divide_eq)
  qed
  moreover have "(of_int (meio_par (x * 2 ^ n)) :: real) / 2 ^ n \<le> of_int b"
  proof -
    have "(of_int (meio_par (x * 2 ^ n)) :: real) \<le> of_int (b * 2 ^ n)"
      using hi by (simp only: of_int_le_iff)
    then show ?thesis
      by (simp add: pos_divide_le_eq)
  qed
  ultimately show ?thesis
    by (simp add: f)
qed

lemma espera_entre: "2 \<le> espera w \<and> espera w \<le> 5"
proof -
  define u where "u = fst (random w)"
  define x where "x = (5 - 2) * u"
  have u01: "0 \<le> u" "u < 1"
    by (simp_all add: u_def random_def)
  have x03: "0 \<le> x" "x \<le> 3"
    using u01 by (simp_all add: x_def)
  have fx: "0 \<le> fl x \<and> fl x \<le> 3"
  proof (cases "x = 0")
    case True
    then show ?thesis by (simp add: fl_def)
  next
    case False
    with x03 have p: "0 < x" "x \<le> 5" by simp_all
    from fl_entre [OF p(1) expoente_le [OF p], of 0 3] x03 show ?thesis
      by simp
  qed
  then have y: "0 < 2 + fl x" "2 + fl x \<le> 5" "of_int 2 \<le> 2 + fl x" "2 + fl x \<le> of_int 5"
    by simp_all
  from fl_entre [OF y(1) expoente_le [OF y(1,2)] y(3,4)]
  have "2 \<le> fl (2 + fl x) \<and> fl (2 + fl x) \<le> 5"
    by simp
  then show ?thesis
    by (simp add: espera_def random_uniform_def x_def u_def)
qed

lemma iniciar_teste_preparo:
  assumes "sem_falhas w"
  shows "take 7 (emitidos w (iniciar_teste canal w)) = preparo (espera w)"
proof -
  from iniciar_teste_ok [OF assms, of "\<lambda>d. True" canal] obtain w' S R where
    i: "iniciar_teste canal w = Ok () w'" and
    tr: "trace w' = trace w @ preparo (espera w) @ S @ R @ [AddEventDetect PIN_BOTAO]"
    by blast
  have "emitidos w (iniciar_teste canal w)
        = preparo (espera w) @ S @ R @ [AddEventDetect PIN_BOTAO]"
    by (simp add: i emitidos_def tr)
  then show ?thesis
    by (simp add: preparo_def)
qed

lemma espera_maxima: "espera sorte_grande = 5"
proof -
  have u: "fst (random sorte_grande)
           = 9007199254740991 / 9007199254740992"
    by (simp add: random_def sorte_grande_def bancada_def)
  have x: "fl (3 * (9007199254740991 / 9007199254740992))
           = 6755399441055743 / 2251799813685248"
    by (simp add: fl_def ulp_def expoente_def meio_par_def floorlog_vals power_int_def
        power_divide)
  have y: "fl (2 + 6755399441055743 / 2251799813685248) = 5"
    by (simp add: fl_def ulp_def expoente_def meio_par_def floorlog_vals power_int_def
        power_divide)
  have "espera sorte_grande
        = fl (2 + fl (3 * (9007199254740991 / 9007199254740992)))"
    by (simp only: espera_def random_uniform_def fst_conv u) simp
  then show ?thesis
    by (simp only: x y)
qed

text \<open>
  Claim C5, as amended. The delay slept between the trigger and the stimulus is the
  value of \<^verbatim>\<open>random.uniform(2, 5)\<close>: on working hardware the trial opens with the
  removal of the edge detection, the yellow LED on, that one sleep, the yellow LED off
  and the green LED on. Every such delay \<open>d\<close> satisfies \<open>2 \<le> d \<le> 5\<close>, the upper end
  included.
\<close>

theorem atraso_de_armar:
  "2 \<le> espera w \<and> espera w \<le> 5 \<and>
   (sem_falhas w \<longrightarrow> take 7 (emitidos w (iniciar_teste canal w)) = preparo (espera w))"
  using espera_entre [of w] iniciar_teste_preparo [of w canal] by blast

theorem atraso_de_armar_witness:
  "sem_falhas bancada \<and>
   take 7 (emitidos bancada (iniciar_teste PIN_BOTAO bancada)) = preparo (espera bancada) \<and>
   2 \<le> espera bancada \<and> espera bancada \<le> 5"
proof -
  have "sem_falhas bancada"
    by (simp add: sem_falhas_def bancada_def)
  then show ?thesis
    using atraso_de_armar [of bancada PIN_BOTAO] by blast
qed

text \<open>
  Claim C5 as stated, \<open>d < 5\<close>, fails at the largest value of \<^verbatim>\<open>random.random()\<close>,
  \<open>1 - 2^-53\<close>: there \<^verbatim>\<open>2 + 3 * random()\<close> rounds to exactly 5.0, and the trial sleeps
  5.0 s.
\<close>

theorem atraso_de_armar_cinco:
  "sem_falhas sorte_grande \<and>
   take 7 (emitidos sorte_grande
             (iniciar_teste PIN_BOTAO sorte_grande))
     = preparo 5 \<and>
   \<not> espera sorte_grande < 5"
proof -
  have sf: "sem_falhas sorte_grande"
    by (simp add: sem_falhas_def sorte_grande_def bancada_def)
  have p: "take 7 (emitidos sorte_grande
             (iniciar_teste PIN_BOTAO sorte_grande))
     = preparo 5"
    using iniciar_teste_preparo [OF sf, of PIN_BOTAO] by (simp only: espera_maxima)
  have q: "\<not> espera sorte_grande < 5"
    unfolding espera_maxima by simp
  show ?thesis
    using sf p q by (intro conjI)
qed

end
